theory Spec2Isabelle
  imports Complex_Main "HOL-Library.Word"
begin

section \<open>Error taxonomy (NMEAException.hpp)\<close>

text \<open>
  \<^verbatim>\<open>ParsingError\<close> is the structural error (wrong field count), \<^verbatim>\<open>InvalidDataError\<close> the
  semantic one. Both derive from \<^verbatim>\<open>NMEAException\<close>; the argument is the message handed to
  the constructor.
\<close>

datatype error = ParsingError string | InvalidDataError string

text \<open>
  Every parser mutates its record through a reference, so what it wrote before a
  \<^verbatim>\<open>throw\<close> stays written. An outcome therefore carries the state in both cases.
\<close>

datatype 's outcome = Returned 's | Threw error 's

section \<open>The C++ type double\<close>

text \<open>
  A \<^verbatim>\<open>double\<close> is a finite value, one of the two infinities, or NaN. A finite value is
  modelled by the rational number it denotes: the rounding of \<^verbatim>\<open>+\<close> and \<^verbatim>\<open>/\<close> to binary64 is
  not modelled, and the two zeros are one value (they compare equal in C++ as well).
  The comparisons are the IEEE ones: every comparison with NaN is false.
\<close>

datatype double = Finite rat | PosInf | NegInf | NaN

fun dneg :: "double \<Rightarrow> double" where
  "dneg (Finite a) = Finite (- a)"
| "dneg PosInf = NegInf"
| "dneg NegInf = PosInf"
| "dneg NaN = NaN"

fun dadd :: "double \<Rightarrow> double \<Rightarrow> double" where
  "dadd NaN y = NaN"
| "dadd x NaN = NaN"
| "dadd (Finite a) (Finite b) = Finite (a + b)"
| "dadd PosInf NegInf = NaN"
| "dadd NegInf PosInf = NaN"
| "dadd PosInf y = PosInf"
| "dadd NegInf y = NegInf"
| "dadd x PosInf = PosInf"
| "dadd x NegInf = NegInf"

text \<open>Division by a finite, positive constant: the only division of the program is by 60.0.\<close>

fun ddiv_const :: "double \<Rightarrow> rat \<Rightarrow> double" where
  "ddiv_const (Finite a) c = Finite (a / c)"
| "ddiv_const x c = x"

fun dlt :: "double \<Rightarrow> double \<Rightarrow> bool" where
  "dlt NaN y = False"
| "dlt x NaN = False"
| "dlt (Finite a) (Finite b) = (a < b)"
| "dlt x NegInf = False"
| "dlt PosInf y = False"
| "dlt x PosInf = True"
| "dlt NegInf y = True"

definition deq :: "double \<Rightarrow> double \<Rightarrow> bool" where
  "deq x y = (x \<noteq> NaN \<and> y \<noteq> NaN \<and> x = y)"

definition dle :: "double \<Rightarrow> double \<Rightarrow> bool" where
  "dle x y = (dlt x y \<or> deq x y)"

definition double_of_int :: "int \<Rightarrow> double" where
  "double_of_int n = Finite (of_int n)"

definition qInf :: double where
  "qInf = PosInf"

section \<open>The Qt string functions the parser calls\<close>

text \<open>
  The input is ASCII (one NMEA sentence per line), so a \<^verbatim>\<open>QString\<close> is a \<^typ>\<open>string\<close>.
  These functions are Qt's, not the repository's; they are modelled from Qt's documentation:
  \<^verbatim>\<open>left(n)\<close> and \<^verbatim>\<open>mid(pos, n)\<close> return what is there when the string is shorter,
  \<^verbatim>\<open>split\<close> keeps empty parts, \<^verbatim>\<open>toInt\<close> and \<^verbatim>\<open>toDouble\<close> ignore surrounding white
  space, return 0 when the conversion fails and report the failure through \<^verbatim>\<open>ok\<close>.
\<close>

definition isEmpty :: "string \<Rightarrow> bool" where
  "isEmpty s = (s = [])"

definition left :: "nat \<Rightarrow> string \<Rightarrow> string" where
  "left n s = take n s"

definition mid :: "nat \<Rightarrow> nat \<Rightarrow> string \<Rightarrow> string" where
  "mid pos n s = take n (drop pos s)"

definition mid_from :: "nat \<Rightarrow> string \<Rightarrow> string" where
  "mid_from pos s = drop pos s"

definition startsWith :: "string \<Rightarrow> string \<Rightarrow> bool" where
  "startsWith s p = (take (length p) s = p)"

fun split :: "char \<Rightarrow> string \<Rightarrow> string list" where
  "split sep [] = [[]]"
| "split sep (c # cs) =
     (if c = sep then [] # split sep cs
      else (case split sep cs of [] \<Rightarrow> [[c]] | p # ps \<Rightarrow> (c # p) # ps))"

definition isSpace :: "char \<Rightarrow> bool" where
  "isSpace c = (c \<in> set [CHR '' '', CHR 0x09, CHR 0x0A, CHR 0x0B, CHR 0x0C, CHR 0x0D])"

definition trimmed :: "string \<Rightarrow> string" where
  "trimmed s = rev (dropWhile isSpace (rev (dropWhile isSpace s)))"

definition isDigit :: "char \<Rightarrow> bool" where
  "isDigit c = (c \<in> set ''0123456789'')"

definition digitValue :: "char \<Rightarrow> nat" where
  "digitValue c = of_char c - 48"

definition digitsValue :: "string \<Rightarrow> nat" where
  "digitsValue ds = foldl (\<lambda>acc c. 10 * acc + digitValue c) 0 ds"

text \<open>An optional sign in front of the rest: \<open>(negative, rest)\<close>.\<close>

fun signOf :: "string \<Rightarrow> bool \<times> string" where
  "signOf [] = (False, [])"
| "signOf (c # cs) =
     (if c = CHR ''-'' then (True, cs)
      else if c = CHR ''+'' then (False, cs)
      else (False, c # cs))"

text \<open>
  \<^verbatim>\<open>QString::toInt(bool *ok)\<close>, base 10: the value and \<^verbatim>\<open>ok\<close>. A value outside the range
  of a 32-bit \<^verbatim>\<open>int\<close> fails like any other malformed text.
\<close>

definition toInt :: "string \<Rightarrow> int \<times> bool" where
  "toInt s =
     (let (negative, ds) = signOf (trimmed s) in
      if ds \<noteq> [] \<and> list_all isDigit ds then
        (let v = (if negative then - int (digitsValue ds) else int (digitsValue ds)) in
         if - (2 ^ 31) \<le> v \<and> v < 2 ^ 31 then (v, True) else (0, False))
      else (0, False))"

definition toLowerChar :: "char \<Rightarrow> char" where
  "toLowerChar c =
     (case map_of (zip ''ABCDEFGHIJKLMNOPQRSTUVWXYZ'' ''abcdefghijklmnopqrstuvwxyz'') c of
        Some l \<Rightarrow> l
      | None \<Rightarrow> c)"

text \<open>
  The decimal notation \<^verbatim>\<open>toDouble\<close> accepts once sign and white space are gone: digits
  with an optional fraction (at least one digit in all), then an optional exponent.
\<close>

definition scale10 :: "rat \<Rightarrow> bool \<Rightarrow> nat \<Rightarrow> rat" where
  "scale10 m negative e = (if negative then m / 10 ^ e else m * 10 ^ e)"

definition exponentOf :: "string \<Rightarrow> (bool \<times> nat) option" where
  "exponentOf r =
     (case r of
        [] \<Rightarrow> Some (False, 0)
      | c # cs \<Rightarrow>
          (if c = CHR ''e'' then
             (let (negative, ds) = signOf cs in
              if ds \<noteq> [] \<and> list_all isDigit ds then Some (negative, digitsValue ds) else None)
           else None))"

definition decimal :: "string \<Rightarrow> rat option" where
  "decimal s =
     (let ip = takeWhile isDigit s;
          r1 = dropWhile isDigit s;
          fp = (case r1 of [] \<Rightarrow> [] | c # cs \<Rightarrow> if c = CHR ''.'' then takeWhile isDigit cs else []);
          r2 = (case r1 of [] \<Rightarrow> [] | c # cs \<Rightarrow> if c = CHR ''.'' then dropWhile isDigit cs else r1)
      in if ip = [] \<and> fp = [] then None
         else (case exponentOf r2 of
                 None \<Rightarrow> None
               | Some (negative, e) \<Rightarrow>
                   Some (scale10 (of_nat (digitsValue (ip @ fp)) / 10 ^ length fp) negative e)))"

text \<open>
  The magnitudes binary64 cannot hold. A magnitude of at least \<open>2^1024 - 2^970\<close> (half
  an ulp above the largest finite value) rounds to infinity; a magnitude of at most
  \<open>2^-1075\<close> (half the smallest subnormal value), and not 0, rounds to 0.
\<close>

definition overflows :: "rat \<Rightarrow> bool" where
  "overflows m = (2 ^ 1024 - 2 ^ 970 \<le> m)"

definition underflows :: "rat \<Rightarrow> bool" where
  "underflows m = (0 < m \<and> m * 2 ^ 1075 \<le> 1)"

text \<open>
  \<^verbatim>\<open>QString::toDouble(bool *ok)\<close>: the value and \<^verbatim>\<open>ok\<close>. Qt accepts the words
  \<^verbatim>\<open>nan\<close>, \<^verbatim>\<open>inf\<close>, \<^verbatim>\<open>+inf\<close> and \<^verbatim>\<open>-inf\<close> in any case. A number that overflows
  gives an infinity and one that underflows gives 0, both with \<^verbatim>\<open>ok\<close> false. Between
  those bounds the value is the number the text denotes: its rounding to binary64 is not
  modelled.
\<close>

definition toDouble :: "string \<Rightarrow> double \<times> bool" where
  "toDouble s =
     (let t = map toLowerChar (trimmed s) in
      if t = ''nan'' then (NaN, True)
      else if t = ''inf'' \<or> t = ''+inf'' then (PosInf, True)
      else if t = ''-inf'' then (NegInf, True)
      else (let (negative, r) = signOf t in
            case decimal r of
              None \<Rightarrow> (Finite 0, False)
            | Some m \<Rightarrow>
                (if overflows m then ((if negative then NegInf else PosInf), False)
                 else if underflows m then (Finite 0, False)
                 else (Finite (if negative then - m else m), True))))"

section \<open>Coordinate converter (NMEAParser.cpp, convertToDecimalDegrees)\<close>

definition degDigits :: "string \<Rightarrow> nat" where
  "degDigits direction = (if direction = ''N'' \<or> direction = ''S'' then 2 else 3)"

definition convertToDecimalDegrees :: "string \<Rightarrow> string \<Rightarrow> error + double" where
  "convertToDecimalDegrees value direction =
     (if isEmpty value \<or> isEmpty direction then
        Inl (InvalidDataError ''InvalidData: Empty latitude/longitude or direction'')
      else if length value < degDigits direction then
        Inl (InvalidDataError ''InvalidData: String too short for degrees'')
      else
        (let (degreePart, okDeg) = toInt (left (degDigits direction) value);
             (minutePart, okMin) = toDouble (mid_from (degDigits direction) value)
         in if \<not> okDeg \<or> \<not> okMin then
              Inl (InvalidDataError ''InvalidData: Conversion failed'')
            else
              (let decimalDegrees = dadd (double_of_int degreePart) (ddiv_const minutePart 60)
               in Inr (if direction = ''S'' \<or> direction = ''W''
                       then dneg decimalDegrees else decimalDegrees))))"

section \<open>Data model (GNSSDataModel.hpp)\<close>

datatype DATAType = Unknown | GGA | GSV

record SATInfo =
  elevation :: double
  azimuth :: double
  snr :: double

text \<open>
  A \<^verbatim>\<open>QTime\<close> built from hour, minute and second, and the date \<^verbatim>\<open>QDate::currentDate()\<close>
  returns (year, month, day): the processing date is an input of the model. A
  default-constructed \<^verbatim>\<open>QDateTime\<close> is null, which is \<open>None\<close> here.
\<close>

datatype QTime = QTime int int int

fun isValid :: "QTime \<Rightarrow> bool" where
  "isValid (QTime h m s) = (0 \<le> h \<and> h < 24 \<and> 0 \<le> m \<and> m < 60 \<and> 0 \<le> s \<and> s < 60)"

type_synonym QDate = "nat \<times> nat \<times> nat"

datatype TimeSpec = UTC

datatype QDateTime = QDateTime QDate QTime TimeSpec

record GNSSData =
  satellites :: "8 word"
  latitude :: double
  longitude :: double
  altitude :: double
  snrAvg :: double
  hdop :: double
  vdop :: double
  satMap :: "int \<rightharpoonup> SATInfo"
  fixType :: string
  timestamp :: "QDateTime option"

text \<open>The member initialisers of \<^verbatim>\<open>GNSSData\<close>.\<close>

definition GNSSData_default :: GNSSData where
  "GNSSData_default =
     \<lparr>satellites = 0, latitude = Finite 0, longitude = Finite 0, altitude = Finite 0,
      snrAvg = Finite 0, hdop = Finite 0, vdop = Finite 0, satMap = Map.empty,
      fixType = ''No fix'', timestamp = None\<rparr>"

text \<open>The two file-scope variables of NMEAParser.cpp (lines 7 and 8).\<close>

record GSVState =
  gsvTempSatellites :: "int \<rightharpoonup> SATInfo"
  expectedGSVParts :: int

definition GSVState_initial :: GSVState where
  "GSVState_initial = \<lparr>gsvTempSatellites = Map.empty, expectedGSVParts = 0\<rparr>"

section \<open>Fix sentence parser (NMEAParser.cpp, parseGGA)\<close>

text \<open>Statements in sequence: the next one runs only if the one before did not throw.\<close>

fun andThen :: "'s outcome \<Rightarrow> ('s \<Rightarrow> 's outcome) \<Rightarrow> 's outcome" where
  "andThen (Returned s) f = f s"
| "andThen (Threw e s) f = Threw e s"

text \<open>Lines 39 to 50: the UTC time.\<close>

definition ggaTime :: "QDate \<Rightarrow> string list \<Rightarrow> GNSSData \<Rightarrow> GNSSData outcome" where
  "ggaTime today tokens data =
     (let timeStr = tokens ! 1 in
      if length timeStr < 6 then
        Threw (InvalidDataError ''Invalid UTC time in GGA frame'') data
      else
        (let hour = fst (toInt (mid 0 2 timeStr));
             minute = fst (toInt (mid 2 2 timeStr));
             second = fst (toInt (mid 4 2 timeStr));
             time = QTime hour minute second
         in if isValid time
            then Returned (data\<lparr>timestamp := Some (QDateTime today time UTC)\<rparr>)
            else Returned data))"

text \<open>Line 53: the latitude.\<close>

definition ggaLatitude :: "string list \<Rightarrow> GNSSData \<Rightarrow> GNSSData outcome" where
  "ggaLatitude tokens data =
     (case convertToDecimalDegrees (tokens ! 2) (tokens ! 3) of
        Inl e \<Rightarrow> Threw e data
      | Inr v \<Rightarrow> Returned (data\<lparr>latitude := v\<rparr>))"

text \<open>Lines 56 to 60: the longitude.\<close>

definition ggaLongitude :: "string list \<Rightarrow> GNSSData \<Rightarrow> GNSSData outcome" where
  "ggaLongitude tokens data =
     (case convertToDecimalDegrees (tokens ! 4) (tokens ! 5) of
        Inl e \<Rightarrow> Threw e data
      | Inr v \<Rightarrow>
          (if deq v (dneg qInf)
           then Threw (InvalidDataError ''Longitude conversion failed'') (data\<lparr>longitude := v\<rparr>)
           else Returned (data\<lparr>longitude := v\<rparr>)))"

text \<open>\<^verbatim>\<open>QString("...%1").arg(n)\<close>: the decimal notation of an \<^verbatim>\<open>int\<close>.\<close>

definition digitChar :: "nat \<Rightarrow> char" where
  "digitChar n = ''0123456789'' ! n"

fun natDigits :: "nat \<Rightarrow> string" where
  "natDigits n =
     (if n < 10 then [digitChar n]
      else natDigits (n div 10) @ [digitChar (n mod 10)])"

declare natDigits.simps [simp del]

definition intText :: "int \<Rightarrow> string" where
  "intText n = (if n < 0 then CHR ''-'' # natDigits (nat (- n)) else natDigits (nat n))"

text \<open>Lines 63 to 72: the fix quality.\<close>

definition ggaFixType :: "string list \<Rightarrow> GNSSData \<Rightarrow> GNSSData outcome" where
  "ggaFixType tokens data =
     (let fixQuality = fst (toInt (tokens ! 6)) in
      if fixQuality = 0 then Returned (data\<lparr>fixType := ''No Fix''\<rparr>)
      else if fixQuality = 1 then Returned (data\<lparr>fixType := ''GPS Fix''\<rparr>)
      else if fixQuality = 2 then Returned (data\<lparr>fixType := ''DGPS Fix''\<rparr>)
      else if fixQuality = 4 then Returned (data\<lparr>fixType := ''RTK Fix''\<rparr>)
      else Threw (InvalidDataError (''Unknown fix quality code: '' @ intText fixQuality)) data)"

text \<open>
  Lines 75 to 79: the number of satellites. The field is a \<^verbatim>\<open>u_int8_t\<close>: the assignment
  keeps the low 8 bits of the parsed \<^verbatim>\<open>int\<close>, and the comparisons read the field, promoted
  to \<^verbatim>\<open>int\<close>.
\<close>

definition ggaSatellites :: "string list \<Rightarrow> GNSSData \<Rightarrow> GNSSData outcome" where
  "ggaSatellites tokens data =
     (let data' = data\<lparr>satellites := word_of_int (fst (toInt (tokens ! 7)))\<rparr> in
      if uint (satellites data') < 0 \<or> uint (satellites data') > 50
      then Threw (InvalidDataError ''Number of satellites out of range'') data'
      else Returned data')"

text \<open>Lines 82 to 86: the HDOP.\<close>

definition ggaHdop :: "string list \<Rightarrow> GNSSData \<Rightarrow> GNSSData outcome" where
  "ggaHdop tokens data =
     (let data' = data\<lparr>hdop := fst (toDouble (tokens ! 8))\<rparr> in
      if dle (hdop data') (Finite 0) \<or> dlt (Finite 50) (hdop data')
      then Threw (InvalidDataError ''HDOP value out of range'') data'
      else Returned data')"

text \<open>Lines 89 to 93: the altitude.\<close>

definition ggaAltitude :: "string list \<Rightarrow> GNSSData \<Rightarrow> GNSSData outcome" where
  "ggaAltitude tokens data =
     (let data' = data\<lparr>altitude := fst (toDouble (tokens ! 9))\<rparr> in
      if dlt (altitude data') (Finite (- 500)) \<or> dlt (Finite 10000) (altitude data')
      then Threw (InvalidDataError ''Altitude out of realistic bounds'') data'
      else Returned data')"

text \<open>
  The handler of lines 94 to 97 logs the exception and throws it again, so it changes
  no outcome.
\<close>

definition parseGGA :: "QDate \<Rightarrow> string list \<Rightarrow> GNSSData \<Rightarrow> GNSSData outcome" where
  "parseGGA today tokens data =
     (if length tokens < 10 then
        Threw (ParsingError ''GGA frame too short: expected >=10 fields'') data
      else
        andThen (andThen (andThen (andThen (andThen (andThen
          (ggaTime today tokens data)
          (ggaLatitude tokens))
          (ggaLongitude tokens))
          (ggaFixType tokens))
          (ggaSatellites tokens))
          (ggaHdop tokens))
          (ggaAltitude tokens))"

section \<open>Visibility sentence parser (NMEAParser.cpp, parseGSV)\<close>

text \<open>Lines 147 to 156: the three header fields and the start of a new sequence.\<close>

definition gsvReset :: "string list \<Rightarrow> GSVState \<Rightarrow> GSVState" where
  "gsvReset tokens st =
     (let totalMsgs = fst (toInt (tokens ! 1));
          msgNum = fst (toInt (tokens ! 2));
          totalSats = fst (toInt (tokens ! 3))
      in if msgNum = 1
         then st\<lparr>gsvTempSatellites := Map.empty, expectedGSVParts := totalMsgs\<rparr>
         else st)"

text \<open>
  Lines 164 to 180: one satellite tuple at index \<open>i\<close>. \<^verbatim>\<open>continue\<close> leaves the map as
  it is.
\<close>

definition gsvTuple :: "string list \<Rightarrow> nat \<Rightarrow> (int \<rightharpoonup> SATInfo) \<Rightarrow> (int \<rightharpoonup> SATInfo)" where
  "gsvTuple tokens i sats =
     (let (id, okId) = toInt (tokens ! i);
          (elev, okElev) = toDouble (tokens ! (i + 1));
          (azim, okAzim) = toDouble (tokens ! (i + 2));
          (snrv, okSnr) = toDouble (tokens ! (i + 3))
      in if \<not> okId \<or> id \<le> 0 then sats
         else sats(id \<mapsto>
                \<lparr>elevation = (if okElev then elev else dneg qInf),
                 azimuth = (if okAzim then azim else dneg qInf),
                 snr = (if okSnr then snrv else dneg qInf)\<rparr>))"

text \<open>
  The third clause of the \<^verbatim>\<open>for\<close> statement on line 158 is the expression \<^verbatim>\<open>i+4\<close>: it is
  evaluated, its value is dropped, and \<^verbatim>\<open>i\<close> keeps its value.
\<close>

definition forStep :: "nat \<Rightarrow> nat" where
  "forStep i = (let dropped = i + 4 in i)"

text \<open>
  Lines 158 to 181. The loop may run forever, so the model is a partial function: \<open>None\<close>
  is a loop that never ends. The nested \<^verbatim>\<open>if\<close> of lines 159 to 162 leaves the loop
  (\<^verbatim>\<open>break\<close>) when both of its conditions hold; \<^verbatim>\<open>continue\<close> and the end of the body both
  go on to the third clause of the \<^verbatim>\<open>for\<close>.
\<close>

partial_function (option) gsvLoop ::
  "string list \<Rightarrow> nat \<Rightarrow> (int \<rightharpoonup> SATInfo) \<Rightarrow> (int \<rightharpoonup> SATInfo) option" where
  "gsvLoop tokens i sats =
     (if i + 3 < length tokens then
        (if i + 3 \<ge> length tokens \<and> i + 3 \<ge> length tokens then Some sats
         else gsvLoop tokens (forStep i) (gsvTuple tokens i sats))
      else Some sats)"

text \<open>
  \<^verbatim>\<open>parseGSV\<close> never touches its \<^verbatim>\<open>data\<close> argument. \<open>None\<close>: the call does not return.
\<close>

definition parseGSV :: "string list \<Rightarrow> GNSSData \<Rightarrow> GSVState \<Rightarrow> GSVState outcome option" where
  "parseGSV tokens data st =
     (if length tokens < 4 then
        Some (Threw (ParsingError ''GSV frame too short: expected >=4 fields'') st)
      else
        (let st' = gsvReset tokens st in
         case gsvLoop tokens 4 (gsvTempSatellites st') of
           None \<Rightarrow> None
         | Some sats \<Rightarrow> Some (Returned (st'\<lparr>gsvTempSatellites := sats\<rparr>))))"

text \<open>
  The same loop and the same call, watched for at most \<open>n\<close> evaluations of the loop
  condition: \<open>Finished\<close> when the call has ended by then, \<open>Running\<close> with the
  file-scope variables as they are at that moment when it has not. This is how the state
  of a call that never returns is read.
\<close>

datatype ('r, 's) progress = Finished 'r | Running 's

fun gsvLoopFor ::
  "nat \<Rightarrow> string list \<Rightarrow> nat \<Rightarrow> (int \<rightharpoonup> SATInfo) \<Rightarrow>
     (int \<rightharpoonup> SATInfo, int \<rightharpoonup> SATInfo) progress" where
  "gsvLoopFor 0 tokens i sats = Running sats"
| "gsvLoopFor (Suc n) tokens i sats =
     (if i + 3 < length tokens then
        (if i + 3 \<ge> length tokens \<and> i + 3 \<ge> length tokens then Finished sats
         else gsvLoopFor n tokens (forStep i) (gsvTuple tokens i sats))
      else Finished sats)"

definition parseGSVFor ::
  "nat \<Rightarrow> string list \<Rightarrow> GNSSData \<Rightarrow> GSVState \<Rightarrow> (GSVState outcome, GSVState) progress" where
  "parseGSVFor n tokens data st =
     (if length tokens < 4 then
        Finished (Threw (ParsingError ''GSV frame too short: expected >=4 fields'') st)
      else
        (let st' = gsvReset tokens st in
         case gsvLoopFor n tokens 4 (gsvTempSatellites st') of
           Finished sats \<Rightarrow> Finished (Returned (st'\<lparr>gsvTempSatellites := sats\<rparr>))
         | Running sats \<Rightarrow> Running (st'\<lparr>gsvTempSatellites := sats\<rparr>)))"

section \<open>Sentence classifier and line dispatcher (DataType, parseLine)\<close>

definition DataType :: "string \<Rightarrow> DATAType" where
  "DataType line =
     (if startsWith line ''$GPGGA'' then GGA
      else if startsWith line ''$GPGSV'' then GSV
      else Unknown)"

text \<open>The state a dispatch works on: the caller's record and the file-scope variables.\<close>

definition parseLine ::
  "QDate \<Rightarrow> string \<Rightarrow> GNSSData \<times> GSVState \<Rightarrow> (GNSSData \<times> GSVState) outcome option" where
  "parseLine today line s =
     (case DataType line of
        GGA \<Rightarrow>
          (case parseGGA today (split CHR '','' line) (fst s) of
             Returned d \<Rightarrow> Some (Returned (d, snd s))
           | Threw e d \<Rightarrow> Some (Threw e (d, snd s)))
      | GSV \<Rightarrow>
          (case parseGSV (split CHR '','' line) (fst s) (snd s) of
             None \<Rightarrow> None
           | Some (Returned g) \<Rightarrow> Some (Returned (fst s, g))
           | Some (Threw e g) \<Rightarrow> Some (Threw e (fst s, g)))
      | Unknown \<Rightarrow> Some (Returned s))"

section \<open>Reading an outcome\<close>

text \<open>The state a call leaves behind, whether it returned or threw.\<close>

fun stateOf :: "'s outcome \<Rightarrow> 's" where
  "stateOf (Returned s) = s"
| "stateOf (Threw e s) = s"

text \<open>
  The comparison the repository's test makes on a coordinate, \<^verbatim>\<open>qAbs(x - c) < eps\<close>, for
  constants \<open>c\<close> and \<open>eps\<close>: it is false when \<open>x\<close> is not finite.
\<close>

fun closeTo :: "double \<Rightarrow> rat \<Rightarrow> rat \<Rightarrow> bool" where
  "closeTo (Finite a) c eps = (\<bar>a - c\<bar> < eps)"
| "closeTo x c eps = False"

section \<open>Evaluation rules and lemmas about the loop\<close>

lemmas qt_eval = toInt_def trimmed_def isSpace_def isDigit_def digitsValue_def digitValue_def
  toDouble_def decimal_def exponentOf_def scale10_def toLowerChar_def overflows_def underflows_def
  isEmpty_def left_def mid_def mid_from_def degDigits_def double_of_int_def

text \<open>
  When the tuple loop returns, its condition was false on entry and the map is the one it
  was given: an iteration leaves \<open>i\<close> as it is, so a loop that is entered is never left.
\<close>

lemma gsvLoop_Some_exit:
  assumes "gsvLoop tokens i sats = Some r"
  shows "\<not> i + 3 < length tokens \<and> r = sats"
proof (rule gsvLoop.raw_induct
    [where P = "\<lambda>tokens i sats r. \<not> i + 3 < length tokens \<and> r = sats", OF _ assms])
  fix loop :: "string list \<Rightarrow> nat \<Rightarrow> (int \<rightharpoonup> SATInfo) \<Rightarrow> (int \<rightharpoonup> SATInfo) option"
  fix tokens i sats r
  assume IH: "\<And>tokens i sats r.
    loop tokens i sats = Some r \<Longrightarrow> \<not> i + 3 < length tokens \<and> r = sats"
  assume step: "(if i + 3 < length tokens then
        (if i + 3 \<ge> length tokens \<and> i + 3 \<ge> length tokens then Some sats
         else loop tokens (forStep i) (gsvTuple tokens i sats))
      else Some sats) = Some r"
  show "\<not> i + 3 < length tokens \<and> r = sats"
  proof (cases "i + 3 < length tokens")
    case True
    with step have "loop tokens (forStep i) (gsvTuple tokens i sats) = Some r"
      by simp
    then have "\<not> forStep i + 3 < length tokens"
      by (rule IH [THEN conjunct1])
    with True show ?thesis
      by (simp add: forStep_def)
  next
    case False
    with step show ?thesis by simp
  qed
qed

lemma gsvLoop_stuck: "i + 3 < length tokens \<Longrightarrow> gsvLoop tokens i sats = None"
  using gsvLoop_Some_exit [of tokens i sats] by (cases "gsvLoop tokens i sats") auto

lemma gsvLoop_exit: "\<not> i + 3 < length tokens \<Longrightarrow> gsvLoop tokens i sats = Some sats"
  by (subst gsvLoop.simps) simp

lemma gsvTuple_dom: "dom sats \<subseteq> dom (gsvTuple tokens i sats)"
  by (auto simp: gsvTuple_def Let_def split: prod.splits)

text \<open>A call that returns leaves the state the header fields produced.\<close>

lemma parseGSV_returned:
  assumes "4 \<le> length tokens" and "parseGSV tokens data st = Some (Returned st')"
  shows "st' = gsvReset tokens st"
proof -
  from assms obtain sats where
    l: "gsvLoop tokens 4 (gsvTempSatellites (gsvReset tokens st)) = Some sats"
    and s: "st' = (gsvReset tokens st)\<lparr>gsvTempSatellites := sats\<rparr>"
    by (auto simp: parseGSV_def Let_def split: option.splits)
  from gsvLoop_Some_exit [OF l] have "sats = gsvTempSatellites (gsvReset tokens st)"
    by simp
  with s show ?thesis by simp
qed

lemma parseGSV_short:
  assumes "4 \<le> length tokens" and "length tokens < 8"
  shows "parseGSV tokens data st = Some (Returned (gsvReset tokens st))"
  using assms by (simp add: parseGSV_def Let_def gsvLoop_exit)

lemma gsvTuple_idem: "gsvTuple tokens i (gsvTuple tokens i sats) = gsvTuple tokens i sats"
  by (auto simp: gsvTuple_def Let_def split: prod.splits)

text \<open>The loop watched for n rounds, in closed form: the index never moves.\<close>

lemma gsvLoopFor_closed:
  "gsvLoopFor n tokens i sats =
     (if i + 3 < length tokens
      then Running (if n = 0 then sats else gsvTuple tokens i sats)
      else (if n = 0 then Running sats else Finished sats))"
proof (induction n arbitrary: sats)
  case 0
  show ?case by simp
next
  case (Suc n)
  show ?case
    by (simp add: Suc.IH forStep_def gsvTuple_idem)
qed

text \<open>
  The watched loop and the loop agree: the call returns a result exactly when the watched
  call has finished with it after some number of rounds.
\<close>

lemma gsvLoopFor_sound:
  "gsvLoopFor n tokens i sats = Finished r \<Longrightarrow> gsvLoop tokens i sats = Some r"
proof (induction n arbitrary: i sats)
  case 0
  then show ?case by simp
next
  case (Suc n)
  show ?case
  proof (cases "i + 3 < length tokens")
    case True
    with Suc.prems have "gsvLoopFor n tokens (forStep i) (gsvTuple tokens i sats) = Finished r"
      by simp
    then have "gsvLoop tokens (forStep i) (gsvTuple tokens i sats) = Some r"
      by (rule Suc.IH)
    with True show ?thesis
      by (subst gsvLoop.simps) simp
  next
    case False
    with Suc.prems show ?thesis
      by (subst gsvLoop.simps) simp
  qed
qed

lemma gsvLoop_iff_gsvLoopFor:
  "gsvLoop tokens i sats = Some r \<longleftrightarrow> (\<exists>n. gsvLoopFor n tokens i sats = Finished r)"
proof
  assume "gsvLoop tokens i sats = Some r"
  then have "\<not> i + 3 < length tokens \<and> r = sats"
    by (rule gsvLoop_Some_exit)
  then have "gsvLoopFor (Suc 0) tokens i sats = Finished r"
    by simp
  then show "\<exists>n. gsvLoopFor n tokens i sats = Finished r" ..
next
  assume "\<exists>n. gsvLoopFor n tokens i sats = Finished r"
  then show "gsvLoop tokens i sats = Some r"
    by (auto dest: gsvLoopFor_sound)
qed

lemma parseGSV_iff_parseGSVFor:
  "parseGSV tokens data st = Some r \<longleftrightarrow> (\<exists>n. parseGSVFor n tokens data st = Finished r)"
proof (cases "length tokens < 4")
  case True
  then show ?thesis
    by (auto simp: parseGSV_def parseGSVFor_def)
next
  case False
  let ?st = "gsvReset tokens st"
  have "parseGSV tokens data st = Some r \<longleftrightarrow>
    (\<exists>sats. gsvLoop tokens 4 (gsvTempSatellites ?st) = Some sats \<and>
       r = Returned (?st\<lparr>gsvTempSatellites := sats\<rparr>))"
    using False by (auto simp: parseGSV_def Let_def split: option.splits)
  also have "\<dots> \<longleftrightarrow>
    (\<exists>sats n. gsvLoopFor n tokens 4 (gsvTempSatellites ?st) = Finished sats \<and>
       r = Returned (?st\<lparr>gsvTempSatellites := sats\<rparr>))"
    by (auto simp: gsvLoop_iff_gsvLoopFor)
  also have "\<dots> \<longleftrightarrow> (\<exists>n. parseGSVFor n tokens data st = Finished r)"
  proof
    assume "\<exists>sats n. gsvLoopFor n tokens 4 (gsvTempSatellites ?st) = Finished sats \<and>
       r = Returned (?st\<lparr>gsvTempSatellites := sats\<rparr>)"
    then obtain sats n where
      "gsvLoopFor n tokens 4 (gsvTempSatellites ?st) = Finished sats"
      "r = Returned (?st\<lparr>gsvTempSatellites := sats\<rparr>)"
      by blast
    with False have "parseGSVFor n tokens data st = Finished r"
      by (simp add: parseGSVFor_def Let_def)
    then show "\<exists>n. parseGSVFor n tokens data st = Finished r" ..
  next
    assume "\<exists>n. parseGSVFor n tokens data st = Finished r"
    then obtain n where n: "parseGSVFor n tokens data st = Finished r" ..
    show "\<exists>sats n. gsvLoopFor n tokens 4 (gsvTempSatellites ?st) = Finished sats \<and>
       r = Returned (?st\<lparr>gsvTempSatellites := sats\<rparr>)"
    proof (cases "gsvLoopFor n tokens 4 (gsvTempSatellites ?st)")
      case (Finished sats)
      with n False have "r = Returned (?st\<lparr>gsvTempSatellites := sats\<rparr>)"
        by (simp add: parseGSVFor_def Let_def)
      with Finished show ?thesis by blast
    next
      case (Running sats)
      with n False show ?thesis
        by (simp add: parseGSVFor_def Let_def)
    qed
  qed
  finally show ?thesis .
qed

text \<open>The call watched for n rounds, in closed form.\<close>

lemma parseGSVFor_closed:
  assumes "4 \<le> length tokens"
  shows "parseGSVFor n tokens data st =
     (if 8 \<le> length tokens
      then Running ((gsvReset tokens st)\<lparr>gsvTempSatellites :=
             (if n = 0 then gsvTempSatellites (gsvReset tokens st)
              else gsvTuple tokens 4 (gsvTempSatellites (gsvReset tokens st)))\<rparr>)
      else (if n = 0 then Running (gsvReset tokens st)
            else Finished (Returned (gsvReset tokens st))))"
  using assms by (simp add: parseGSVFor_def gsvLoopFor_closed Let_def)

lemma gsvTuple_other_keys:
  "k \<noteq> fst (toInt (tokens ! i)) \<Longrightarrow> gsvTuple tokens i sats k = sats k"
  by (auto simp: gsvTuple_def Let_def split: prod.splits)

lemma gsvTuple_empty_keys:
  "gsvTuple tokens i Map.empty k = Some y \<Longrightarrow> toInt (tokens ! i) = (k, True) \<and> 0 < k"
  by (auto simp: gsvTuple_def Let_def split: prod.splits if_splits)

section \<open>Lemmas about the conversions and the stages of parseGGA\<close>

lemmas gga_eval = parseGGA_def ggaTime_def ggaLatitude_def ggaLongitude_def ggaFixType_def
  ggaSatellites_def ggaHdop_def ggaAltitude_def convertToDecimalDegrees_def
  deq_def dle_def qInf_def intText_def natDigits.simps digitChar_def

lemma dneg_not_NaN: "x \<noteq> NaN \<Longrightarrow> dneg x \<noteq> NaN"
  by (cases x) simp_all

lemma toInt_failed_zero: "\<not> snd (toInt s) \<Longrightarrow> fst (toInt s) = 0"
  by (auto simp: toInt_def Let_def split: prod.splits if_splits)

lemma andThen_keeps:
  assumes "\<And>s. g (stateOf (f s)) = g s"
  shows "g (stateOf (andThen r f)) = g (stateOf r)"
  using assms by (cases r) simp_all

lemma andThen_Threw:
  "andThen r f = Threw e d \<Longrightarrow> r = Threw e d \<or> (\<exists>s. r = Returned s \<and> f s = Threw e d)"
  by (cases r) simp_all

text \<open>What the stages after the fix quality leave of the label and of the timestamp.\<close>

lemma ggaTail_keeps:
  "fixType (stateOf (andThen (andThen (ggaSatellites tokens d) (ggaHdop tokens))
      (ggaAltitude tokens))) = fixType d"
  "timestamp (stateOf (andThen (andThen (ggaSatellites tokens d) (ggaHdop tokens))
      (ggaAltitude tokens))) = timestamp d"
  by (simp_all add: ggaSatellites_def ggaHdop_def ggaAltitude_def Let_def)

lemma ggaTail_errors:
  "andThen (andThen (ggaSatellites tokens d) (ggaHdop tokens)) (ggaAltitude tokens) = Threw e d'
   \<Longrightarrow> e \<in> {InvalidDataError ''Number of satellites out of range'',
            InvalidDataError ''HDOP value out of range'',
            InvalidDataError ''Altitude out of realistic bounds''}"
  by (simp add: ggaSatellites_def ggaHdop_def ggaAltitude_def Let_def split: if_splits)

text \<open>The call from the fix quality on, when time and coordinates pass.\<close>

lemma parseGGA_position_passed:
  assumes "10 \<le> length tokens" and "6 \<le> length (tokens ! 1)"
    and "convertToDecimalDegrees (tokens ! 2) (tokens ! 3) = Inr lat"
    and "convertToDecimalDegrees (tokens ! 4) (tokens ! 5) = Inr lon"
    and "\<not> deq lon (dneg qInf)"
  shows "parseGGA today tokens data =
    andThen (andThen (andThen
      (ggaFixType tokens ((stateOf (ggaTime today tokens data))\<lparr>latitude := lat, longitude := lon\<rparr>))
      (ggaSatellites tokens)) (ggaHdop tokens)) (ggaAltitude tokens)"
  using assms
  by (simp add: parseGGA_def ggaTime_def ggaLatitude_def ggaLongitude_def Let_def)

lemma ggaTime_keeps_fixType:
  "fixType (stateOf (ggaTime today tokens data)) = fixType data"
  by (simp add: ggaTime_def Let_def)

lemma stages_keep_timestamp:
  "timestamp (stateOf (ggaLatitude tokens d)) = timestamp d"
  "timestamp (stateOf (ggaLongitude tokens d)) = timestamp d"
  "timestamp (stateOf (ggaFixType tokens d)) = timestamp d"
  "timestamp (stateOf (ggaSatellites tokens d)) = timestamp d"
  "timestamp (stateOf (ggaHdop tokens d)) = timestamp d"
  "timestamp (stateOf (ggaAltitude tokens d)) = timestamp d"
  by (simp_all add: ggaLatitude_def ggaLongitude_def ggaFixType_def ggaSatellites_def
        ggaHdop_def ggaAltitude_def Let_def split: sum.splits)

lemma parseGGA_keeps_timestamp:
  "10 \<le> length tokens \<Longrightarrow>
   timestamp (stateOf (parseGGA today tokens data)) =
   timestamp (stateOf (ggaTime today tokens data))"
  by (simp add: parseGGA_def andThen_keeps [where g = timestamp] stages_keep_timestamp)

text \<open>No stage after the time raises the time's error.\<close>

lemma convert_not_time_error:
  "convertToDecimalDegrees v d = Inl e \<Longrightarrow>
   e \<noteq> InvalidDataError ''Invalid UTC time in GGA frame''"
  by (auto simp: convertToDecimalDegrees_def Let_def split: if_splits prod.splits)

lemma stages_not_time_error:
  "ggaLatitude tokens s = Threw e d \<Longrightarrow> e \<noteq> InvalidDataError ''Invalid UTC time in GGA frame''"
  "ggaLongitude tokens s = Threw e d \<Longrightarrow> e \<noteq> InvalidDataError ''Invalid UTC time in GGA frame''"
  "ggaFixType tokens s = Threw e d \<Longrightarrow> e \<noteq> InvalidDataError ''Invalid UTC time in GGA frame''"
  "ggaSatellites tokens s = Threw e d \<Longrightarrow> e \<noteq> InvalidDataError ''Invalid UTC time in GGA frame''"
  "ggaHdop tokens s = Threw e d \<Longrightarrow> e \<noteq> InvalidDataError ''Invalid UTC time in GGA frame''"
  "ggaAltitude tokens s = Threw e d \<Longrightarrow> e \<noteq> InvalidDataError ''Invalid UTC time in GGA frame''"
  by (auto simp: ggaLatitude_def ggaLongitude_def ggaFixType_def ggaSatellites_def
        ggaHdop_def ggaAltitude_def Let_def
        dest: convert_not_time_error
        split: sum.splits if_splits)

lemma parseGGA_not_time_error:
  assumes "10 \<le> length tokens" and "ggaTime today tokens data = Returned s"
  shows "parseGGA today tokens data \<noteq>
    Threw (InvalidDataError ''Invalid UTC time in GGA frame'') d"
proof
  assume "parseGGA today tokens data =
    Threw (InvalidDataError ''Invalid UTC time in GGA frame'') d"
  with assms have
    "andThen (andThen (andThen (andThen (andThen (ggaLatitude tokens s)
       (ggaLongitude tokens)) (ggaFixType tokens)) (ggaSatellites tokens))
       (ggaHdop tokens)) (ggaAltitude tokens) =
     Threw (InvalidDataError ''Invalid UTC time in GGA frame'') d"
    by (simp add: parseGGA_def)
  then show False
    by (auto dest!: andThen_Threw dest: stages_not_time_error)
qed

lemma isValid_iff_groups:
  "isValid (QTime (fst (toInt a)) (fst (toInt b)) (fst (toInt c))) \<longleftrightarrow>
     (snd (toInt a) \<longrightarrow> 0 \<le> fst (toInt a) \<and> fst (toInt a) < 24) \<and>
     (snd (toInt b) \<longrightarrow> 0 \<le> fst (toInt b) \<and> fst (toInt b) < 60) \<and>
     (snd (toInt c) \<longrightarrow> 0 \<le> fst (toInt c) \<and> fst (toInt c) < 60)"
  using toInt_failed_zero [of a] toInt_failed_zero [of b] toInt_failed_zero [of c]
  by auto

lemma parseGGA_timestamp_after:
  assumes "10 \<le> length tokens"
    and "parseGGA today tokens data = Returned d \<or> (\<exists>e. parseGGA today tokens data = Threw e d)"
  shows "timestamp d = timestamp (stateOf (ggaTime today tokens data))"
proof -
  from assms(2) have "stateOf (parseGGA today tokens data) = d"
    by auto
  with parseGGA_keeps_timestamp [OF assms(1), of today data] show ?thesis
    by simp
qed

section \<open>The claims\<close>

text \<open>
  Claim C1 says that the tuple loop of \<^verbatim>\<open>parseGSV\<close> advances its index by 4 in each
  iteration and that \<^verbatim>\<open>parseGSV\<close> terminates on every token list of at least 4 tokens.
  The code does neither: the third clause of the \<^verbatim>\<open>for\<close> statement leaves the index where
  it is, and as soon as one complete tuple is present (8 tokens or more) the loop is
  entered at index 4 and never left, so the call does not return.
\<close>

theorem C1_parseGSV_does_not_return:
  "8 \<le> length tokens \<Longrightarrow> forStep 4 = 4 \<and> parseGSV tokens data st = None"
  by (simp add: parseGSV_def gsvLoop_stuck Let_def forStep_def)

theorem C1_parseGSV_does_not_return_witness:
  "8 \<le> length (split CHR '','' ''$GPGSV,3,1,12,02,65,290,42,04,40,150,38,09,55,050,44,12,32,200,36*7A'') \<and>
   parseGSV (split CHR '','' ''$GPGSV,3,1,12,02,65,290,42,04,40,150,38,09,55,050,44,12,32,200,36*7A'')
     GNSSData_default GSVState_initial = None"
  using C1_parseGSV_does_not_return
          [of "split CHR '','' ''$GPGSV,3,1,12,02,65,290,42,04,40,150,38,09,55,050,44,12,32,200,36*7A''"
              GNSSData_default GSVState_initial]
  by simp

text \<open>
  Claim C6: \<^verbatim>\<open>convertToDecimalDegrees\<close> raises a semantic error if and only if the value
  is empty, or the hemisphere is empty, or the value is shorter than the degree width
  (2 for N and S, 3 otherwise), or the degree prefix does not parse as an integer, or the
  minutes suffix does not parse as a floating-point number. In every other case it
  returns a value, and it never raises a structural error.
\<close>

theorem C6_convert_raises_iff:
  "((\<exists>msg. convertToDecimalDegrees v d = Inl (InvalidDataError msg)) \<longleftrightarrow>
      (v = [] \<or> d = [] \<or>
       length v < (if d = ''N'' \<or> d = ''S'' then 2 else 3) \<or>
       \<not> snd (toInt (left (if d = ''N'' \<or> d = ''S'' then 2 else 3) v)) \<or>
       \<not> snd (toDouble (mid_from (if d = ''N'' \<or> d = ''S'' then 2 else 3) v)))) \<and>
   ((\<exists>x. convertToDecimalDegrees v d = Inr x) \<longleftrightarrow>
      \<not> (v = [] \<or> d = [] \<or>
       length v < (if d = ''N'' \<or> d = ''S'' then 2 else 3) \<or>
       \<not> snd (toInt (left (if d = ''N'' \<or> d = ''S'' then 2 else 3) v)) \<or>
       \<not> snd (toDouble (mid_from (if d = ''N'' \<or> d = ''S'' then 2 else 3) v)))) \<and>
   (\<forall>msg. convertToDecimalDegrees v d \<noteq> Inl (ParsingError msg))"
  by (auto simp: convertToDecimalDegrees_def isEmpty_def degDigits_def Let_def
           split: prod.splits if_splits)

theorem C6_convert_raises_iff_witness:
  "(\<exists>msg. convertToDecimalDegrees ''4807.038'' [] = Inl (InvalidDataError msg)) \<and>
   (\<exists>msg. convertToDecimalDegrees ''4'' ''N'' = Inl (InvalidDataError msg)) \<and>
   (\<exists>msg. convertToDecimalDegrees ''48'' ''E'' = Inl (InvalidDataError msg)) \<and>
   (\<exists>msg. convertToDecimalDegrees ''4x07.038'' ''N'' = Inl (InvalidDataError msg)) \<and>
   (\<exists>msg. convertToDecimalDegrees ''4807.0x8'' ''N'' = Inl (InvalidDataError msg)) \<and>
   (\<exists>x. convertToDecimalDegrees ''4807.038'' ''N'' = Inr x) \<and>
   (\<exists>x. convertToDecimalDegrees ''11131.000'' ''E'' = Inr x)"
proof -
  have 1: "\<exists>msg. convertToDecimalDegrees ''4807.038'' [] = Inl (InvalidDataError msg)"
    using C6_convert_raises_iff [of "''4807.038''" "[]"] by simp
  have 2: "\<exists>msg. convertToDecimalDegrees ''4'' ''N'' = Inl (InvalidDataError msg)"
    using C6_convert_raises_iff [of "''4''" "''N''"] by simp
  have 3: "\<exists>msg. convertToDecimalDegrees ''48'' ''E'' = Inl (InvalidDataError msg)"
    using C6_convert_raises_iff [of "''48''" "''E''"] by simp
  have 4: "\<exists>msg. convertToDecimalDegrees ''4x07.038'' ''N'' = Inl (InvalidDataError msg)"
    using C6_convert_raises_iff [of "''4x07.038''" "''N''"] by (simp add: qt_eval)
  have 5: "\<exists>msg. convertToDecimalDegrees ''4807.0x8'' ''N'' = Inl (InvalidDataError msg)"
    using C6_convert_raises_iff [of "''4807.0x8''" "''N''"] by (simp add: qt_eval)
  have 6: "\<exists>x. convertToDecimalDegrees ''4807.038'' ''N'' = Inr x"
    using C6_convert_raises_iff [of "''4807.038''" "''N''"] by (simp add: qt_eval)
  have 7: "\<exists>x. convertToDecimalDegrees ''11131.000'' ''E'' = Inr x"
    using C6_convert_raises_iff [of "''11131.000''" "''E''"] by (simp add: qt_eval)
  from 1 2 3 4 5 6 7 show ?thesis by blast
qed

text \<open>
  Claim C8: with fewer than 10 tokens \<^verbatim>\<open>parseGGA\<close> raises the structural error, and with
  fewer than 4 tokens \<^verbatim>\<open>parseGSV\<close> does. The check comes before any field is read: the
  outcome is the same whatever the tokens hold, and the record and the accumulation
  state are left exactly as they were.
\<close>

theorem C8_length_checks_come_first:
  "(length tokens < 10 \<longrightarrow>
      parseGGA today tokens data =
        Threw (ParsingError ''GGA frame too short: expected >=10 fields'') data) \<and>
   (length tokens < 4 \<longrightarrow>
      parseGSV tokens data st =
        Some (Threw (ParsingError ''GSV frame too short: expected >=4 fields'') st))"
  by (simp add: parseGGA_def parseGSV_def)

theorem C8_length_checks_come_first_witness:
  "length (split CHR '','' ''$GPGGA,094500,,,,,0,00'') < 10 \<and>
   parseGGA (2025, 6, 1) (split CHR '','' ''$GPGGA,094500,,,,,0,00'') GNSSData_default =
     Threw (ParsingError ''GGA frame too short: expected >=10 fields'') GNSSData_default \<and>
   length (split CHR '','' ''$GPGSV,3,1'') < 4 \<and>
   parseGSV (split CHR '','' ''$GPGSV,3,1'') GNSSData_default GSVState_initial =
     Some (Threw (ParsingError ''GSV frame too short: expected >=4 fields'') GSVState_initial)"
  using C8_length_checks_come_first
          [of "split CHR '','' ''$GPGGA,094500,,,,,0,00''" "(2025, 6, 1)" GNSSData_default]
        C8_length_checks_come_first
          [of "split CHR '','' ''$GPGSV,3,1''" _ GNSSData_default GSVState_initial]
  by simp

text \<open>
  Claim C2 says that \<^verbatim>\<open>parseGGA\<close> raises a semantic error whenever the parsed satellite
  count lies outside [0, 50]. The code stores the parsed \<^verbatim>\<open>int\<close> in a \<^verbatim>\<open>u_int8_t\<close> field
  before it compares, so the comparison sees the count modulo 256: the token \<^verbatim>\<open>256\<close>
  parses as 256, is stored as 0, and the sentence is accepted with a satellite count of 0.
  In general the satellite step throws exactly when the parsed count modulo 256 exceeds 50.
\<close>

theorem C2_satellite_count_wraps:
  "((\<exists>e d'. ggaSatellites tokens d = Threw e d') \<longleftrightarrow>
      50 < fst (toInt (tokens ! 7)) mod 256) \<and>
   toInt ''256'' = (256, True) \<and>
   parseGGA today
     (split CHR '','' ''$GPGGA,123519,4807.038,N,11131.000,E,1,256,0.9,545.4,M,,*47'') data =
   Returned (data\<lparr>timestamp := Some (QDateTime today (QTime 12 35 19) UTC),
     latitude := Finite (481173 / 10000), longitude := Finite (6691 / 60),
     fixType := ''GPS Fix'', satellites := 0, hdop := Finite (9 / 10),
     altitude := Finite (5454 / 10)\<rparr>)"
proof -
  have "(\<exists>e d'. ggaSatellites tokens d = Threw e d') \<longleftrightarrow>
      50 < fst (toInt (tokens ! 7)) mod 256"
    by (simp add: ggaSatellites_def Let_def uint_word_of_int)
  then show ?thesis
    by (simp add: gga_eval qt_eval)
qed

text \<open>
  Claim C3: for a token list of at least 10 fields that passes time and coordinate
  parsing (the time token has 6 characters or more, both conversions succeed and the
  longitude is not minus infinity), a fix-quality code of 0, 1, 2 or 4 sets the label of
  the record to "No Fix", "GPS Fix", "DGPS Fix" or "RTK Fix", whatever the later
  fields do; any other code raises the semantic error that names the code, and the label
  is left as it was.
\<close>

theorem C3_fix_quality_mapping:
  assumes "10 \<le> length tokens" and "6 \<le> length (tokens ! 1)"
    and "convertToDecimalDegrees (tokens ! 2) (tokens ! 3) = Inr lat"
    and "convertToDecimalDegrees (tokens ! 4) (tokens ! 5) = Inr lon"
    and "\<not> deq lon (dneg qInf)"
  shows
   "(fst (toInt (tokens ! 6)) = 0 \<longrightarrow>
       fixType (stateOf (parseGGA today tokens data)) = ''No Fix'') \<and>
    (fst (toInt (tokens ! 6)) = 1 \<longrightarrow>
       fixType (stateOf (parseGGA today tokens data)) = ''GPS Fix'') \<and>
    (fst (toInt (tokens ! 6)) = 2 \<longrightarrow>
       fixType (stateOf (parseGGA today tokens data)) = ''DGPS Fix'') \<and>
    (fst (toInt (tokens ! 6)) = 4 \<longrightarrow>
       fixType (stateOf (parseGGA today tokens data)) = ''RTK Fix'') \<and>
    (fst (toInt (tokens ! 6)) \<notin> {0, 1, 2, 4} \<longrightarrow>
       (\<exists>d. parseGGA today tokens data =
              Threw (InvalidDataError
                (''Unknown fix quality code: '' @ intText (fst (toInt (tokens ! 6))))) d \<and>
            fixType d = fixType data))"
  unfolding parseGGA_position_passed [OF assms]
  by (simp add: ggaFixType_def ggaTail_keeps ggaTime_keeps_fixType)

theorem C3_fix_quality_mapping_witness:
  "10 \<le> length (split CHR '','' ''$GPGGA,123519,4807.038,N,11131.000,E,1,08,0.9,545.4,M,,*47'') \<and>
   fst (toInt (split CHR '','' ''$GPGGA,123519,4807.038,N,11131.000,E,1,08,0.9,545.4,M,,*47'' ! 6)) = 1 \<and>
   fixType (stateOf (parseGGA (2025, 6, 1)
     (split CHR '','' ''$GPGGA,123519,4807.038,N,11131.000,E,1,08,0.9,545.4,M,,*47'')
     GNSSData_default)) = ''GPS Fix'' \<and>
   fst (toInt (split CHR '','' ''$GPGGA,123519,4807.038,N,11131.000,E,3,08,0.9,545.4,M,,*47'' ! 6)) = 3 \<and>
   (\<exists>d. parseGGA (2025, 6, 1)
     (split CHR '','' ''$GPGGA,123519,4807.038,N,11131.000,E,3,08,0.9,545.4,M,,*47'')
     GNSSData_default = Threw (InvalidDataError ''Unknown fix quality code: 3'') d)"
proof -
  let ?a = "split CHR '','' ''$GPGGA,123519,4807.038,N,11131.000,E,1,08,0.9,545.4,M,,*47''"
  let ?b = "split CHR '','' ''$GPGGA,123519,4807.038,N,11131.000,E,3,08,0.9,545.4,M,,*47''"
  have a: "10 \<le> length ?a" "6 \<le> length (?a ! 1)"
    "convertToDecimalDegrees (?a ! 2) (?a ! 3) = Inr (Finite (481173 / 10000))"
    "convertToDecimalDegrees (?a ! 4) (?a ! 5) = Inr (Finite (6691 / 60))"
    "\<not> deq (Finite (6691 / 60)) (dneg qInf)"
    by (simp_all add: convertToDecimalDegrees_def qt_eval deq_def qInf_def)
  have b: "10 \<le> length ?b" "6 \<le> length (?b ! 1)"
    "convertToDecimalDegrees (?b ! 2) (?b ! 3) = Inr (Finite (481173 / 10000))"
    "convertToDecimalDegrees (?b ! 4) (?b ! 5) = Inr (Finite (6691 / 60))"
    by (simp_all add: convertToDecimalDegrees_def qt_eval)
  have qa: "fst (toInt (?a ! 6)) = 1" and qb: "fst (toInt (?b ! 6)) = 3"
    by (simp_all add: qt_eval)
  from C3_fix_quality_mapping [OF a, of "(2025, 6, 1)" GNSSData_default] qa
  have 1: "fixType (stateOf (parseGGA (2025, 6, 1) ?a GNSSData_default)) = ''GPS Fix''"
    by blast
  from C3_fix_quality_mapping [OF b a(5), of "(2025, 6, 1)" GNSSData_default] qb
  have 2: "\<exists>d. parseGGA (2025, 6, 1) ?b GNSSData_default =
     Threw (InvalidDataError ''Unknown fix quality code: 3'') d"
    by (auto simp: intText_def natDigits.simps digitChar_def)
  from a(1) qa 1 qb 2 show ?thesis by blast
qed

text \<open>
  Claim C4: dispatching the line
  \<^verbatim>\<open>$GPGGA,123519,4807.038,N,11131.000,E,1,08,0.9,545.4,M,,*47\<close> returns without an error,
  whatever the record and the accumulation state held before, and leaves the record with
  a latitude within 0.002 of 48.1173, a longitude within 0.002 of 111.517, 8 satellites,
  the label "GPS Fix", altitude 545.4 and HDOP 0.9; the timestamp is 12:35:19 UTC on the
  processing date.
\<close>

theorem C4_basic_gps_fix:
  "\<exists>d. parseLine today ''$GPGGA,123519,4807.038,N,11131.000,E,1,08,0.9,545.4,M,,*47'' (data, st)
          = Some (Returned (d, st)) \<and>
        closeTo (latitude d) (481173 / 10000) (2 / 1000) \<and>
        closeTo (longitude d) (111517 / 1000) (2 / 1000) \<and>
        satellites d = 8 \<and>
        fixType d = ''GPS Fix'' \<and>
        altitude d = Finite (5454 / 10) \<and>
        hdop d = Finite (9 / 10) \<and>
        timestamp d = Some (QDateTime today (QTime 12 35 19) UTC)"
  by (simp add: parseLine_def DataType_def startsWith_def gga_eval qt_eval)

text \<open>
  Claim C5: for a token list of at least 4 tokens, the header step of \<^verbatim>\<open>parseGSV\<close> empties
  the accumulation map and records the expected message count exactly when token 2
  parses as 1, and leaves the state alone otherwise; an iteration of the tuple loop never
  removes a key, so the map is emptied nowhere else. The call is also watched while it
  runs, since with 8 tokens or more it never returns: after any number of rounds of the
  loop, when the message index is 1 the expected count is the one of this sentence and
  the map holds nothing but the tuple of this sentence (it is empty, or it is what the
  tuple at index 4 puts into an empty map), so no entry of an earlier sequence remains;
  when the message index is not 1 the expected count is unchanged, every earlier key is
  still there, and every entry under another key than the tuple's is as it was. A call
  that returns leaves the state the header step produced, and with fewer than 8 tokens
  the call does return.
\<close>

theorem C5_reset_only_at_message_one:
  assumes "4 \<le> length tokens"
  shows
   "(fst (toInt (tokens ! 2)) = 1 \<longrightarrow>
       gsvReset tokens st =
         st\<lparr>gsvTempSatellites := Map.empty, expectedGSVParts := fst (toInt (tokens ! 1))\<rparr>) \<and>
    (fst (toInt (tokens ! 2)) \<noteq> 1 \<longrightarrow> gsvReset tokens st = st) \<and>
    (\<forall>i sats. dom sats \<subseteq> dom (gsvTuple tokens i sats)) \<and>
    (\<forall>st'. parseGSV tokens data st = Some (Returned st') \<longrightarrow>
       (fst (toInt (tokens ! 2)) = 1 \<longrightarrow>
          gsvTempSatellites st' = Map.empty \<and>
          expectedGSVParts st' = fst (toInt (tokens ! 1))) \<and>
       (fst (toInt (tokens ! 2)) \<noteq> 1 \<longrightarrow> st' = st)) \<and>
    (length tokens < 8 \<longrightarrow> (\<exists>st'. parseGSV tokens data st = Some (Returned st'))) \<and>
    (\<forall>r. parseGSV tokens data st = Some r \<longleftrightarrow>
         (\<exists>n. parseGSVFor n tokens data st = Finished r)) \<and>
    (\<forall>n. \<exists>s.
       (parseGSVFor n tokens data st = Running s \<or>
        parseGSVFor n tokens data st = Finished (Returned s)) \<and>
       (fst (toInt (tokens ! 2)) = 1 \<longrightarrow>
          expectedGSVParts s = fst (toInt (tokens ! 1)) \<and>
          (gsvTempSatellites s = Map.empty \<or>
           gsvTempSatellites s = gsvTuple tokens 4 Map.empty) \<and>
          (\<forall>k. k \<in> dom (gsvTempSatellites s) \<longrightarrow>
             8 \<le> length tokens \<and> toInt (tokens ! 4) = (k, True) \<and> 0 < k)) \<and>
       (fst (toInt (tokens ! 2)) \<noteq> 1 \<longrightarrow>
          expectedGSVParts s = expectedGSVParts st \<and>
          dom (gsvTempSatellites st) \<subseteq> dom (gsvTempSatellites s) \<and>
          (\<forall>k. k \<noteq> fst (toInt (tokens ! 4)) \<longrightarrow>
             gsvTempSatellites s k = gsvTempSatellites st k)))"
proof -
  have r1: "fst (toInt (tokens ! 2)) = 1 \<longrightarrow>
       gsvReset tokens st =
         st\<lparr>gsvTempSatellites := Map.empty, expectedGSVParts := fst (toInt (tokens ! 1))\<rparr>"
    by (simp add: gsvReset_def Let_def)
  have r2: "fst (toInt (tokens ! 2)) \<noteq> 1 \<longrightarrow> gsvReset tokens st = st"
    by (simp add: gsvReset_def Let_def)
  have body: "\<forall>i sats. dom sats \<subseteq> dom (gsvTuple tokens i sats)"
    by (simp add: gsvTuple_dom)
  have ret: "\<forall>st'. parseGSV tokens data st = Some (Returned st') \<longrightarrow>
       (fst (toInt (tokens ! 2)) = 1 \<longrightarrow>
          gsvTempSatellites st' = Map.empty \<and>
          expectedGSVParts st' = fst (toInt (tokens ! 1))) \<and>
       (fst (toInt (tokens ! 2)) \<noteq> 1 \<longrightarrow> st' = st)"
  proof (intro allI impI)
    fix st'
    assume "parseGSV tokens data st = Some (Returned st')"
    then have "st' = gsvReset tokens st"
      by (rule parseGSV_returned [OF assms])
    with r1 r2 show "(fst (toInt (tokens ! 2)) = 1 \<longrightarrow>
          gsvTempSatellites st' = Map.empty \<and>
          expectedGSVParts st' = fst (toInt (tokens ! 1))) \<and>
       (fst (toInt (tokens ! 2)) \<noteq> 1 \<longrightarrow> st' = st)"
      by simp
  qed
  have short: "length tokens < 8 \<longrightarrow> (\<exists>st'. parseGSV tokens data st = Some (Returned st'))"
    using parseGSV_short [OF assms] by blast
  have adq: "\<forall>r. parseGSV tokens data st = Some r \<longleftrightarrow>
         (\<exists>n. parseGSVFor n tokens data st = Finished r)"
    by (simp add: parseGSV_iff_parseGSVFor)
  have watch: "\<forall>n. \<exists>s.
       (parseGSVFor n tokens data st = Running s \<or>
        parseGSVFor n tokens data st = Finished (Returned s)) \<and>
       (fst (toInt (tokens ! 2)) = 1 \<longrightarrow>
          expectedGSVParts s = fst (toInt (tokens ! 1)) \<and>
          (gsvTempSatellites s = Map.empty \<or>
           gsvTempSatellites s = gsvTuple tokens 4 Map.empty) \<and>
          (\<forall>k. k \<in> dom (gsvTempSatellites s) \<longrightarrow>
             8 \<le> length tokens \<and> toInt (tokens ! 4) = (k, True) \<and> 0 < k)) \<and>
       (fst (toInt (tokens ! 2)) \<noteq> 1 \<longrightarrow>
          expectedGSVParts s = expectedGSVParts st \<and>
          dom (gsvTempSatellites st) \<subseteq> dom (gsvTempSatellites s) \<and>
          (\<forall>k. k \<noteq> fst (toInt (tokens ! 4)) \<longrightarrow>
             gsvTempSatellites s k = gsvTempSatellites st k))"
  proof
    fix n
    let ?st = "gsvReset tokens st"
    let ?P = "\<lambda>s. (fst (toInt (tokens ! 2)) = 1 \<longrightarrow>
          expectedGSVParts s = fst (toInt (tokens ! 1)) \<and>
          (gsvTempSatellites s = Map.empty \<or>
           gsvTempSatellites s = gsvTuple tokens 4 Map.empty) \<and>
          (\<forall>k. k \<in> dom (gsvTempSatellites s) \<longrightarrow>
             8 \<le> length tokens \<and> toInt (tokens ! 4) = (k, True) \<and> 0 < k)) \<and>
       (fst (toInt (tokens ! 2)) \<noteq> 1 \<longrightarrow>
          expectedGSVParts s = expectedGSVParts st \<and>
          dom (gsvTempSatellites st) \<subseteq> dom (gsvTempSatellites s) \<and>
          (\<forall>k. k \<noteq> fst (toInt (tokens ! 4)) \<longrightarrow>
             gsvTempSatellites s k = gsvTempSatellites st k))"
    have before: "?P ?st"
      using r1 r2 by (cases "fst (toInt (tokens ! 2)) = 1") simp_all
    have after: "8 \<le> length tokens \<Longrightarrow>
      ?P (?st\<lparr>gsvTempSatellites := gsvTuple tokens 4 (gsvTempSatellites ?st)\<rparr>)"
    proof (cases "fst (toInt (tokens ! 2)) = 1")
      case True
      assume "8 \<le> length tokens"
      with True r1 show ?thesis
        by (auto dest: gsvTuple_empty_keys)
    next
      case False
      with r2 show ?thesis
        using gsvTuple_dom [of "gsvTempSatellites st" tokens 4]
        by (simp add: gsvTuple_other_keys)
    qed
    show "\<exists>s. (parseGSVFor n tokens data st = Running s \<or>
        parseGSVFor n tokens data st = Finished (Returned s)) \<and> ?P s"
    proof (cases "8 \<le> length tokens \<and> n \<noteq> 0")
      case True
      then have "parseGSVFor n tokens data st =
        Running (?st\<lparr>gsvTempSatellites := gsvTuple tokens 4 (gsvTempSatellites ?st)\<rparr>)"
        by (simp add: parseGSVFor_closed [OF assms])
      with after True show ?thesis by blast
    next
      case False
      then have "parseGSVFor n tokens data st = Running ?st \<or>
        parseGSVFor n tokens data st = Finished (Returned ?st)"
        by (auto simp: parseGSVFor_closed [OF assms])
      with before show ?thesis by blast
    qed
  qed
  from r1 r2 body ret short adq watch show ?thesis by blast
qed

theorem C5_reset_only_at_message_one_witness:
  "4 \<le> length (split CHR '','' ''$GPGSV,3,1,12,02,65,290,42,04,40,150,38,09,55,050,44,12,32,200,36*7A'') \<and>
   fst (toInt (split CHR '','' ''$GPGSV,3,1,12,02,65,290,42,04,40,150,38,09,55,050,44,12,32,200,36*7A'' ! 2)) = 1 \<and>
   parseGSVFor 2
     (split CHR '','' ''$GPGSV,3,1,12,02,65,290,42,04,40,150,38,09,55,050,44,12,32,200,36*7A'')
     GNSSData_default
     \<lparr>gsvTempSatellites =
        [7 \<mapsto> \<lparr>elevation = Finite 10, azimuth = Finite 20, snr = Finite 30\<rparr>],
      expectedGSVParts = 2\<rparr> =
   Running
     \<lparr>gsvTempSatellites =
        [2 \<mapsto> \<lparr>elevation = Finite 65, azimuth = Finite 290, snr = Finite 42\<rparr>],
      expectedGSVParts = 3\<rparr> \<and>
   (7::int) \<notin> dom [2 \<mapsto> \<lparr>elevation = Finite 65, azimuth = Finite 290, snr = Finite 42\<rparr>] \<and>
   4 \<le> length (split CHR '','' ''$GPGSV,3,1,12'') \<and>
   (\<exists>st'. parseGSV (split CHR '','' ''$GPGSV,3,1,12'') GNSSData_default
       \<lparr>gsvTempSatellites =
          [7 \<mapsto> \<lparr>elevation = Finite 10, azimuth = Finite 20, snr = Finite 30\<rparr>],
        expectedGSVParts = 2\<rparr> = Some (Returned st') \<and>
      gsvTempSatellites st' = Map.empty \<and> expectedGSVParts st' = 3)"
proof -
  let ?long = "split CHR '','' ''$GPGSV,3,1,12,02,65,290,42,04,40,150,38,09,55,050,44,12,32,200,36*7A''"
  let ?t = "split CHR '','' ''$GPGSV,3,1,12''"
  let ?st = "\<lparr>gsvTempSatellites =
          [7 \<mapsto> \<lparr>elevation = Finite 10, azimuth = Finite 20, snr = Finite 30\<rparr>],
        expectedGSVParts = 2\<rparr>"
  let ?new = "[(2::int) \<mapsto> \<lparr>elevation = Finite 65, azimuth = Finite 290, snr = Finite 42\<rparr>]"
  have b: "4 \<le> length ?long" by simp
  have qb: "fst (toInt (?long ! 2)) = 1" "toInt (?long ! 4) = (2, True)"
    by (simp_all add: qt_eval)
  have run: "parseGSVFor 2 ?long GNSSData_default ?st =
     Running \<lparr>gsvTempSatellites = ?new, expectedGSVParts = 3\<rparr>"
    by (subst parseGSVFor_closed [OF b]) (simp add: gsvReset_def gsvTuple_def qt_eval)
  note w = C5_reset_only_at_message_one [OF b, of ?st GNSSData_default,
      THEN conjunct2, THEN conjunct2, THEN conjunct2, THEN conjunct2, THEN conjunct2,
      THEN conjunct2, THEN spec, of 2]
  then obtain s where s: "parseGSVFor 2 ?long GNSSData_default ?st = Running s \<or>
        parseGSVFor 2 ?long GNSSData_default ?st = Finished (Returned s)"
    and p: "fst (toInt (?long ! 2)) = 1 \<longrightarrow>
          expectedGSVParts s = fst (toInt (?long ! 1)) \<and>
          (gsvTempSatellites s = Map.empty \<or>
           gsvTempSatellites s = gsvTuple ?long 4 Map.empty) \<and>
          (\<forall>k. k \<in> dom (gsvTempSatellites s) \<longrightarrow>
             8 \<le> length ?long \<and> toInt (?long ! 4) = (k, True) \<and> 0 < k)"
    by (elim exE conjE)
  from p qb(1) have keys: "\<forall>k. k \<in> dom (gsvTempSatellites s) \<longrightarrow>
      toInt (?long ! 4) = (k, True)"
    by simp
  from s run have s_eq: "s = \<lparr>gsvTempSatellites = ?new, expectedGSVParts = 3\<rparr>"
    by simp
  from keys [THEN spec, of 7] qb(2) have "7 \<notin> dom (gsvTempSatellites s)"
    by simp
  with s_eq have gone: "(7::int) \<notin> dom ?new"
    by simp
  have a: "4 \<le> length ?t" by simp
  have q: "fst (toInt (?t ! 2)) = 1" "fst (toInt (?t ! 1)) = 3" "length ?t < 8"
    by (simp_all add: qt_eval)
  note c4 = C5_reset_only_at_message_one [OF a, of ?st GNSSData_default,
      THEN conjunct2, THEN conjunct2, THEN conjunct2, THEN conjunct1]
  note c5 = C5_reset_only_at_message_one [OF a, of ?st GNSSData_default,
      THEN conjunct2, THEN conjunct2, THEN conjunct2, THEN conjunct2, THEN conjunct1]
  from c5 q(3) obtain st' where r: "parseGSV ?t GNSSData_default ?st = Some (Returned st')"
    by blast
  from c4 [THEN spec, of st'] r q(1,2)
  have "gsvTempSatellites st' = Map.empty \<and> expectedGSVParts st' = 3"
    by simp
  with r have short: "\<exists>st'. parseGSV ?t GNSSData_default ?st = Some (Returned st') \<and>
      gsvTempSatellites st' = Map.empty \<and> expectedGSVParts st' = 3"
    by blast
  from b qb(1) run gone a short show ?thesis by blast
qed

text \<open>
  Claim C7: \<^verbatim>\<open>convertToDecimalDegrees\<close> depends on its two arguments only (the source reads
  nothing else, and the model is a function of them), and where the conversion of a value
  succeeds for N it succeeds for S with the negated result; likewise for E and W. The
  two results are the same value; when it is not NaN, they are also equal under the
  \<^verbatim>\<open>==\<close> of C++.
\<close>

theorem C7_convert_sign_symmetry:
  "(v = v' \<and> d = d' \<longrightarrow> convertToDecimalDegrees v d = convertToDecimalDegrees v' d') \<and>
   (\<forall>x. convertToDecimalDegrees v ''N'' = Inr x \<longrightarrow>
        convertToDecimalDegrees v ''S'' = Inr (dneg x) \<and>
        (x \<noteq> NaN \<longrightarrow> (\<exists>y. convertToDecimalDegrees v ''S'' = Inr y \<and> deq y (dneg x)))) \<and>
   (\<forall>x. convertToDecimalDegrees v ''E'' = Inr x \<longrightarrow>
        convertToDecimalDegrees v ''W'' = Inr (dneg x) \<and>
        (x \<noteq> NaN \<longrightarrow> (\<exists>y. convertToDecimalDegrees v ''W'' = Inr y \<and> deq y (dneg x))))"
  by (auto simp: convertToDecimalDegrees_def degDigits_def isEmpty_def Let_def deq_def dneg_not_NaN
           split: prod.splits if_splits)

theorem C7_convert_sign_symmetry_witness:
  "convertToDecimalDegrees ''4807.038'' ''N'' = Inr (Finite (481173 / 10000)) \<and>
   convertToDecimalDegrees ''4807.038'' ''S'' = Inr (Finite (- (481173 / 10000))) \<and>
   convertToDecimalDegrees ''11131.000'' ''E'' = Inr (Finite (6691 / 60)) \<and>
   convertToDecimalDegrees ''11131.000'' ''W'' = Inr (Finite (- (6691 / 60)))"
proof -
  have n: "convertToDecimalDegrees ''4807.038'' ''N'' = Inr (Finite (481173 / 10000))"
    by (simp add: convertToDecimalDegrees_def qt_eval)
  have e: "convertToDecimalDegrees ''11131.000'' ''E'' = Inr (Finite (6691 / 60))"
    by (simp add: convertToDecimalDegrees_def qt_eval)
  from C7_convert_sign_symmetry [of "''4807.038''" "''4807.038''" "''N''" "''N''"] n
  have s: "convertToDecimalDegrees ''4807.038'' ''S'' = Inr (dneg (Finite (481173 / 10000)))"
    by blast
  from C7_convert_sign_symmetry [of "''11131.000''" "''11131.000''" "''E''" "''E''"] e
  have w: "convertToDecimalDegrees ''11131.000'' ''W'' = Inr (dneg (Finite (6691 / 60)))"
    by blast
  from n e s w show ?thesis by simp
qed

text \<open>
  Claim C9: for a token list of at least 10 fields that passes time and coordinate
  parsing, a fix-quality token that does not parse as an integer is read as 0: the
  fix-quality step returns with the label "No Fix", the label is still "No Fix" when
  \<^verbatim>\<open>parseGGA\<close> ends, and \<^verbatim>\<open>parseGGA\<close> does not raise the unknown-code error.
\<close>

theorem C9_unparseable_fix_quality:
  assumes "10 \<le> length tokens" and "6 \<le> length (tokens ! 1)"
    and "convertToDecimalDegrees (tokens ! 2) (tokens ! 3) = Inr lat"
    and "convertToDecimalDegrees (tokens ! 4) (tokens ! 5) = Inr lon"
    and "\<not> deq lon (dneg qInf)"
    and "\<not> snd (toInt (tokens ! 6))"
  shows
   "fst (toInt (tokens ! 6)) = 0 \<and>
    ggaFixType tokens d = Returned (d\<lparr>fixType := ''No Fix''\<rparr>) \<and>
    fixType (stateOf (parseGGA today tokens data)) = ''No Fix'' \<and>
    (\<forall>m d'. parseGGA today tokens data \<noteq>
       Threw (InvalidDataError (''Unknown fix quality code: '' @ m)) d')"
proof -
  have z: "fst (toInt (tokens ! 6)) = 0"
    using assms(6) by (rule toInt_failed_zero)
  then have step: "\<And>d. ggaFixType tokens d = Returned (d\<lparr>fixType := ''No Fix''\<rparr>)"
    by (simp add: ggaFixType_def)
  have p: "parseGGA today tokens data =
    andThen (andThen
      (ggaSatellites tokens ((stateOf (ggaTime today tokens data))
         \<lparr>latitude := lat, longitude := lon, fixType := ''No Fix''\<rparr>))
      (ggaHdop tokens)) (ggaAltitude tokens)"
    unfolding parseGGA_position_passed [OF assms(1-5)] by (simp add: step)
  have lab: "fixType (stateOf (parseGGA today tokens data)) = ''No Fix''"
    unfolding p by (simp add: ggaTail_keeps)
  have no: "\<forall>m d'. parseGGA today tokens data \<noteq>
       Threw (InvalidDataError (''Unknown fix quality code: '' @ m)) d'"
  proof (intro allI notI)
    fix m d'
    assume "parseGGA today tokens data =
       Threw (InvalidDataError (''Unknown fix quality code: '' @ m)) d'"
    then show False
      unfolding p by (auto dest!: ggaTail_errors)
  qed
  from z step lab no show ?thesis by simp
qed

theorem C9_unparseable_fix_quality_witness:
  "10 \<le> length (split CHR '','' ''$GPGGA,123519,4807.038,N,11131.000,E,,08,0.9,545.4,M,,*47'') \<and>
   toInt (split CHR '','' ''$GPGGA,123519,4807.038,N,11131.000,E,,08,0.9,545.4,M,,*47'' ! 6) = (0, False) \<and>
   fixType (stateOf (parseGGA (2025, 6, 1)
     (split CHR '','' ''$GPGGA,123519,4807.038,N,11131.000,E,,08,0.9,545.4,M,,*47'')
     GNSSData_default)) = ''No Fix''"
proof -
  let ?a = "split CHR '','' ''$GPGGA,123519,4807.038,N,11131.000,E,,08,0.9,545.4,M,,*47''"
  have a: "10 \<le> length ?a" "6 \<le> length (?a ! 1)"
    "convertToDecimalDegrees (?a ! 2) (?a ! 3) = Inr (Finite (481173 / 10000))"
    "convertToDecimalDegrees (?a ! 4) (?a ! 5) = Inr (Finite (6691 / 60))"
    "\<not> deq (Finite (6691 / 60)) (dneg qInf)"
    "\<not> snd (toInt (?a ! 6))"
    by (simp_all add: convertToDecimalDegrees_def qt_eval deq_def qInf_def)
  have q: "toInt (?a ! 6) = (0, False)"
    by (simp add: qt_eval)
  from C9_unparseable_fix_quality [OF a, of _ "(2025, 6, 1)" GNSSData_default]
  have 1: "fixType (stateOf (parseGGA (2025, 6, 1) ?a GNSSData_default)) = ''No Fix''"
    by blast
  from a(1) q 1 show ?thesis by blast
qed

text \<open>
  Claim C10 says that a time token of at least 6 characters with a non-numeric hour,
  minute or second group always gives a valid time of day and a timestamp. That fails
  when another group is numeric and out of range: in \<^verbatim>\<open>AB9900\<close> the hour group fails and
  reads as 0, the minute group reads as 99, the time 00:99:00 is not valid, and the call
  returns without an error and with the timestamp still unset.
\<close>

theorem C10_mixed_groups_counterexample:
  "10 \<le> length (split CHR '','' ''$GPGGA,AB9900,4807.038,N,11131.000,E,1,08,0.9,545.4,M,,*47'') \<and>
   6 \<le> length (split CHR '','' ''$GPGGA,AB9900,4807.038,N,11131.000,E,1,08,0.9,545.4,M,,*47'' ! 1) \<and>
   toInt (mid 0 2 (split CHR '','' ''$GPGGA,AB9900,4807.038,N,11131.000,E,1,08,0.9,545.4,M,,*47'' ! 1))
     = (0, False) \<and>
   toInt (mid 2 2 (split CHR '','' ''$GPGGA,AB9900,4807.038,N,11131.000,E,1,08,0.9,545.4,M,,*47'' ! 1))
     = (99, True) \<and>
   toInt (mid 4 2 (split CHR '','' ''$GPGGA,AB9900,4807.038,N,11131.000,E,1,08,0.9,545.4,M,,*47'' ! 1))
     = (0, True) \<and>
   \<not> isValid (QTime 0 99 0) \<and>
   timestamp GNSSData_default = None \<and>
   parseGGA (2025, 6, 1)
     (split CHR '','' ''$GPGGA,AB9900,4807.038,N,11131.000,E,1,08,0.9,545.4,M,,*47'')
     GNSSData_default =
   Returned (GNSSData_default\<lparr>latitude := Finite (481173 / 10000),
     longitude := Finite (6691 / 60), fixType := ''GPS Fix'', satellites := 8,
     hdop := Finite (9 / 10), altitude := Finite (5454 / 10)\<rparr>) \<and>
   timestamp (GNSSData_default\<lparr>latitude := Finite (481173 / 10000),
     longitude := Finite (6691 / 60), fixType := ''GPS Fix'', satellites := 8,
     hdop := Finite (9 / 10), altitude := Finite (5454 / 10)\<rparr>) = None"
  by (simp add: gga_eval qt_eval GNSSData_default_def)

text \<open>
  Claim C10, amended: for a token list of at least 10 fields whose time token has at
  least 6 characters, every group that fails to parse reads as 0, the time step returns
  and \<^verbatim>\<open>parseGGA\<close> never raises the error of the time field. The time of day is valid
  exactly when every group that does parse is in range (hour below 24, minute and second
  below 60, none negative), so in particular when all three groups fail. When it is
  valid, the record \<^verbatim>\<open>parseGGA\<close> leaves, whether it returns or a later field throws, has
  the timestamp set to that time on the processing date, UTC; when it is not valid, the
  timestamp is left as it was.
\<close>

theorem C10_time_groups:
  assumes "10 \<le> length tokens" and "6 \<le> length (tokens ! 1)"
  shows
   "(\<not> snd (toInt (mid 0 2 (tokens ! 1))) \<longrightarrow> fst (toInt (mid 0 2 (tokens ! 1))) = 0) \<and>
    (\<not> snd (toInt (mid 2 2 (tokens ! 1))) \<longrightarrow> fst (toInt (mid 2 2 (tokens ! 1))) = 0) \<and>
    (\<not> snd (toInt (mid 4 2 (tokens ! 1))) \<longrightarrow> fst (toInt (mid 4 2 (tokens ! 1))) = 0) \<and>
    (isValid (QTime (fst (toInt (mid 0 2 (tokens ! 1)))) (fst (toInt (mid 2 2 (tokens ! 1))))
                    (fst (toInt (mid 4 2 (tokens ! 1))))) \<longleftrightarrow>
       (snd (toInt (mid 0 2 (tokens ! 1))) \<longrightarrow>
          0 \<le> fst (toInt (mid 0 2 (tokens ! 1))) \<and> fst (toInt (mid 0 2 (tokens ! 1))) < 24) \<and>
       (snd (toInt (mid 2 2 (tokens ! 1))) \<longrightarrow>
          0 \<le> fst (toInt (mid 2 2 (tokens ! 1))) \<and> fst (toInt (mid 2 2 (tokens ! 1))) < 60) \<and>
       (snd (toInt (mid 4 2 (tokens ! 1))) \<longrightarrow>
          0 \<le> fst (toInt (mid 4 2 (tokens ! 1))) \<and> fst (toInt (mid 4 2 (tokens ! 1))) < 60)) \<and>
    ggaTime today tokens data =
      Returned
        (if isValid (QTime (fst (toInt (mid 0 2 (tokens ! 1)))) (fst (toInt (mid 2 2 (tokens ! 1))))
                           (fst (toInt (mid 4 2 (tokens ! 1)))))
         then data\<lparr>timestamp := Some (QDateTime today
                (QTime (fst (toInt (mid 0 2 (tokens ! 1)))) (fst (toInt (mid 2 2 (tokens ! 1))))
                       (fst (toInt (mid 4 2 (tokens ! 1))))) UTC)\<rparr>
         else data) \<and>
    (\<forall>d. parseGGA today tokens data \<noteq>
           Threw (InvalidDataError ''Invalid UTC time in GGA frame'') d) \<and>
    (\<forall>d. parseGGA today tokens data = Returned d \<or>
          (\<exists>e. parseGGA today tokens data = Threw e d) \<longrightarrow>
          timestamp d =
            (if isValid (QTime (fst (toInt (mid 0 2 (tokens ! 1))))
                               (fst (toInt (mid 2 2 (tokens ! 1))))
                               (fst (toInt (mid 4 2 (tokens ! 1)))))
             then Some (QDateTime today
                (QTime (fst (toInt (mid 0 2 (tokens ! 1)))) (fst (toInt (mid 2 2 (tokens ! 1))))
                       (fst (toInt (mid 4 2 (tokens ! 1))))) UTC)
             else timestamp data))"
proof -
  let ?h = "fst (toInt (mid 0 2 (tokens ! 1)))"
  let ?m = "fst (toInt (mid 2 2 (tokens ! 1)))"
  let ?s = "fst (toInt (mid 4 2 (tokens ! 1)))"
  let ?d1 = "if isValid (QTime ?h ?m ?s)
         then data\<lparr>timestamp := Some (QDateTime today (QTime ?h ?m ?s) UTC)\<rparr> else data"
  have zero: "(\<not> snd (toInt (mid 0 2 (tokens ! 1))) \<longrightarrow> ?h = 0) \<and>
    (\<not> snd (toInt (mid 2 2 (tokens ! 1))) \<longrightarrow> ?m = 0) \<and>
    (\<not> snd (toInt (mid 4 2 (tokens ! 1))) \<longrightarrow> ?s = 0)"
    by (simp add: toInt_failed_zero)
  note valid = isValid_iff_groups [of "mid 0 2 (tokens ! 1)" "mid 2 2 (tokens ! 1)"
      "mid 4 2 (tokens ! 1)"]
  from assms(2) have t: "ggaTime today tokens data = Returned ?d1"
    by (simp add: ggaTime_def Let_def)
  have quiet: "\<forall>d. parseGGA today tokens data \<noteq>
           Threw (InvalidDataError ''Invalid UTC time in GGA frame'') d"
    using parseGGA_not_time_error [OF assms(1) t] by simp
  have stamp: "\<forall>d. parseGGA today tokens data = Returned d \<or>
          (\<exists>e. parseGGA today tokens data = Threw e d) \<longrightarrow>
          timestamp d =
            (if isValid (QTime ?h ?m ?s)
             then Some (QDateTime today (QTime ?h ?m ?s) UTC) else timestamp data)"
  proof (intro allI impI)
    fix d
    assume "parseGGA today tokens data = Returned d \<or>
          (\<exists>e. parseGGA today tokens data = Threw e d)"
    then have "timestamp d = timestamp (stateOf (ggaTime today tokens data))"
      by (rule parseGGA_timestamp_after [OF assms(1)])
    then show "timestamp d =
            (if isValid (QTime ?h ?m ?s)
             then Some (QDateTime today (QTime ?h ?m ?s) UTC) else timestamp data)"
      by (simp add: t)
  qed
  from zero valid t quiet stamp show ?thesis
    by blast
qed

theorem C10_time_groups_witness:
  "10 \<le> length (split CHR '','' ''$GPGGA,ABCDEF,4807.038,N,11131.000,E,1,08,0.9,545.4,M,,*47'') \<and>
   6 \<le> length (split CHR '','' ''$GPGGA,ABCDEF,4807.038,N,11131.000,E,1,08,0.9,545.4,M,,*47'' ! 1) \<and>
   \<not> snd (toInt (mid 0 2 (split CHR '','' ''$GPGGA,ABCDEF,4807.038,N,11131.000,E,1,08,0.9,545.4,M,,*47'' ! 1))) \<and>
   \<not> snd (toInt (mid 2 2 (split CHR '','' ''$GPGGA,ABCDEF,4807.038,N,11131.000,E,1,08,0.9,545.4,M,,*47'' ! 1))) \<and>
   \<not> snd (toInt (mid 4 2 (split CHR '','' ''$GPGGA,ABCDEF,4807.038,N,11131.000,E,1,08,0.9,545.4,M,,*47'' ! 1))) \<and>
   (\<exists>d. parseGGA (2025, 6, 1)
          (split CHR '','' ''$GPGGA,ABCDEF,4807.038,N,11131.000,E,1,08,0.9,545.4,M,,*47'')
          GNSSData_default = Returned d \<and>
        timestamp d = Some (QDateTime (2025, 6, 1) (QTime 0 0 0) UTC)) \<and>
   10 \<le> length (split CHR '','' ''$GPGGA,AB9900,4807.038,N,11131.000,E,1,08,0.9,545.4,M,,*47'') \<and>
   6 \<le> length (split CHR '','' ''$GPGGA,AB9900,4807.038,N,11131.000,E,1,08,0.9,545.4,M,,*47'' ! 1) \<and>
   (\<exists>d. parseGGA (2025, 6, 1)
          (split CHR '','' ''$GPGGA,AB9900,4807.038,N,11131.000,E,1,08,0.9,545.4,M,,*47'')
          GNSSData_default = Returned d \<and>
        timestamp d = None)"
proof -
  let ?a = "split CHR '','' ''$GPGGA,ABCDEF,4807.038,N,11131.000,E,1,08,0.9,545.4,M,,*47''"
  let ?b = "split CHR '','' ''$GPGGA,AB9900,4807.038,N,11131.000,E,1,08,0.9,545.4,M,,*47''"
  let ?rest = "\<lambda>d. d\<lparr>latitude := Finite (481173 / 10000),
     longitude := Finite (6691 / 60), fixType := ''GPS Fix'', satellites := 8,
     hdop := Finite (9 / 10), altitude := Finite (5454 / 10)\<rparr>"
  let ?da = "?rest (GNSSData_default\<lparr>timestamp :=
     Some (QDateTime (2025, 6, 1) (QTime 0 0 0) UTC)\<rparr>)"
  let ?db = "?rest GNSSData_default"
  have a: "10 \<le> length ?a" "6 \<le> length (?a ! 1)"
    by simp_all
  have b: "10 \<le> length ?b" "6 \<le> length (?b ! 1)"
    by simp_all
  have ga: "toInt (mid 0 2 (?a ! 1)) = (0, False)" "toInt (mid 2 2 (?a ! 1)) = (0, False)"
    "toInt (mid 4 2 (?a ! 1)) = (0, False)"
    by (simp_all add: qt_eval)
  have gb: "toInt (mid 0 2 (?b ! 1)) = (0, False)" "toInt (mid 2 2 (?b ! 1)) = (99, True)"
    "toInt (mid 4 2 (?b ! 1)) = (0, True)"
    by (simp_all add: qt_eval)
  have ra: "parseGGA (2025, 6, 1) ?a GNSSData_default = Returned ?da"
    by (simp add: gga_eval qt_eval)
  have rb: "parseGGA (2025, 6, 1) ?b GNSSData_default = Returned ?db"
    by (simp add: gga_eval qt_eval)
  note sa = C10_time_groups [OF a, of "(2025, 6, 1)" GNSSData_default,
      THEN conjunct2, THEN conjunct2, THEN conjunct2, THEN conjunct2, THEN conjunct2,
      THEN conjunct2, THEN spec, of ?da]
  note sb = C10_time_groups [OF b, of "(2025, 6, 1)" GNSSData_default,
      THEN conjunct2, THEN conjunct2, THEN conjunct2, THEN conjunct2, THEN conjunct2,
      THEN conjunct2, THEN spec, of ?db]
  from sa ra ga have ta: "timestamp ?da = Some (QDateTime (2025, 6, 1) (QTime 0 0 0) UTC)"
    by simp
  from sb rb gb have tb: "timestamp ?db = None"
    by (simp add: GNSSData_default_def)
  from ra ta have ea: "\<exists>d. parseGGA (2025, 6, 1) ?a GNSSData_default = Returned d \<and>
        timestamp d = Some (QDateTime (2025, 6, 1) (QTime 0 0 0) UTC)"
    by blast
  from rb tb have eb: "\<exists>d. parseGGA (2025, 6, 1) ?b GNSSData_default = Returned d \<and>
        timestamp d = None"
    by blast
  from a b ga ea eb show ?thesis
    by simp
qed

end
